theory Spec2Isabelle
  imports Main
begin

section \<open>Python values and errors\<close>

text \<open>
  The exceptions that the modelled code can let escape. \<open>BackendError\<close> stands for
  whatever a concrete backend raises from the methods it supplies.
\<close>

datatype py_error = TypeError | ValueError | AttributeError | BackendError string

section \<open>The standard library functions used by \<open>pyiceberg/io/interface.py\<close>\<close>

subsection \<open>\<open>urllib.parse.urlparse\<close>\<close>

text \<open>
  \<open>parse_location\<close> calls \<open>urlparse\<close> of the standard library and reads the
  attributes \<open>scheme\<close>, \<open>netloc\<close> and \<open>path\<close> of the named tuple it returns.
  The theorems about \<open>parse_location\<close> below take the parser as a parameter, so
  they hold for whatever \<open>urlparse\<close> returns. To run the definitions on concrete
  locations, \<open>urlparse\<close> is also written out here, after \<open>urlsplit\<close> and
  \<open>urlparse\<close> of CPython 3.10 (\<open>Lib/urllib/parse.py\<close>), for locations made of
  ASCII characters (the check of non-ASCII authorities is left out).
\<close>

record ParseResult =
  scheme :: string
  netloc :: string
  path :: string
  params :: string
  query :: string
  fragment :: string

definition scheme_chars :: string where
  "scheme_chars = ''abcdefghijklmnopqrstuvwxyzABCDEFGHIJKLMNOPQRSTUVWXYZ0123456789+-.''"

definition uses_params :: "string list" where
  "uses_params = ['''', ''ftp'', ''hdl'', ''prospero'', ''http'', ''imap'', ''https'',
     ''shttp'', ''rtsp'', ''rtspu'', ''sip'', ''sips'', ''mms'', ''sftp'', ''tel'']"

definition ascii_lower :: "char \<Rightarrow> char" where
  "ascii_lower c =
     (case map_of (zip ''ABCDEFGHIJKLMNOPQRSTUVWXYZ'' ''abcdefghijklmnopqrstuvwxyz'') c of
        Some l \<Rightarrow> l
      | None \<Rightarrow> c)"

text \<open>\<open>before c s\<close> and \<open>after c s\<close> are the two parts of \<open>s.split(c, 1)\<close>
  when \<open>c\<close> occurs in \<open>s\<close>.\<close>

definition before :: "char \<Rightarrow> string \<Rightarrow> string" where
  "before c s = takeWhile (\<lambda>x. x \<noteq> c) s"

definition after :: "char \<Rightarrow> string \<Rightarrow> string" where
  "after c s = drop 1 (dropWhile (\<lambda>x. x \<noteq> c) s)"

text \<open>Leading C0 control characters and spaces are stripped, and tab, carriage
  return and line feed are removed everywhere.\<close>

definition is_c0_control_or_space :: "char \<Rightarrow> bool" where
  "is_c0_control_or_space c = ((of_char c :: nat) \<le> 32)"

definition remove_unsafe :: "string \<Rightarrow> string" where
  "remove_unsafe url = filter (\<lambda>c. c \<notin> set [CHR 0x09, CHR 0x0D, CHR 0x0A]) url"

text \<open>The scheme: the text before the first colon, when the colon is not the first
  character and all of that text is made of scheme characters.\<close>

definition split_scheme :: "string \<Rightarrow> string \<times> string" where
  "split_scheme url =
     (let pre = before CHR '':'' url in
      if CHR '':'' \<in> set url \<and> pre \<noteq> [] \<and> list_all (\<lambda>c. c \<in> set scheme_chars) pre
      then (map ascii_lower pre, after CHR '':'' url)
      else ([], url))"

text \<open>\<open>_splitnetloc(url, 2)\<close>: the authority runs from index 2 to the first of
  \<open>/\<close>, \<open>?\<close>, \<open>#\<close>.\<close>

definition is_netloc_delim :: "char \<Rightarrow> bool" where
  "is_netloc_delim c = (c \<in> set ''/?#'')"

definition splitnetloc :: "string \<Rightarrow> string \<times> string" where
  "splitnetloc url =
     (takeWhile (\<lambda>c. \<not> is_netloc_delim c) (drop 2 url),
      dropWhile (\<lambda>c. \<not> is_netloc_delim c) (drop 2 url))"

definition urlsplit :: "string \<Rightarrow> py_error + (string \<times> string \<times> string \<times> string \<times> string)" where
  "urlsplit url0 =
     (let url1 = remove_unsafe (dropWhile is_c0_control_or_space url0);
          (sch, url2) = split_scheme url1;
          (nl, url3) = (if take 2 url2 = ''//'' then splitnetloc url2 else ([], url2))
      in if (CHR ''['' \<in> set nl) \<noteq> (CHR '']'' \<in> set nl) then Inl ValueError
         else
           let (url4, frag) =
                 (if CHR ''#'' \<in> set url3 then (before CHR ''#'' url3, after CHR ''#'' url3)
                  else (url3, []));
               (url5, qry) =
                 (if CHR ''?'' \<in> set url4 then (before CHR ''?'' url4, after CHR ''?'' url4)
                  else (url4, []))
           in Inr (sch, nl, url5, qry, frag))"

text \<open>\<open>_splitparams\<close>: the parameters start at the first semicolon of the last
  path segment.\<close>

definition splitparams :: "string \<Rightarrow> string \<times> string" where
  "splitparams url =
     (if CHR ''/'' \<in> set url then
        (let seg = rev (before CHR ''/'' (rev url));
             hd_part = take (length url - length seg) url
         in if CHR '';'' \<in> set seg
            then (hd_part @ before CHR '';'' seg, after CHR '';'' seg)
            else (url, []))
      else (before CHR '';'' url, after CHR '';'' url))"

definition urlparse :: "string \<Rightarrow> py_error + ParseResult" where
  "urlparse url =
     (case urlsplit url of
        Inl e \<Rightarrow> Inl e
      | Inr (sch, nl, u, qry, frag) \<Rightarrow>
          (let (u', prm) =
                 (if sch \<in> set uses_params \<and> CHR '';'' \<in> set u then splitparams u
                  else (u, []))
           in Inr \<lparr>scheme = sch, netloc = nl, path = u', params = prm,
                    query = qry, fragment = frag\<rparr>))"

subsection \<open>\<open>os.path.abspath\<close>\<close>

text \<open>
  \<open>os.path.abspath\<close> starts with \<open>os.fspath\<close>, which accepts a \<open>str\<close>,
  \<open>bytes\<close> or an \<open>os.PathLike\<close> object and raises \<open>TypeError\<close> on anything
  else. The two kinds of argument that occur in this development are a string and the
  named tuple returned by \<open>urlparse\<close>; the latter is none of the accepted types.
  On a string the POSIX implementation joins a relative path to the current working
  directory \<open>cwd\<close> and normalises the result.
\<close>

datatype py_arg = PyStr string | PyParseResult ParseResult

primrec split_on :: "char \<Rightarrow> string \<Rightarrow> string list" where
  "split_on c [] = [[]]"
| "split_on c (x # xs) =
     (if x = c then [] # split_on c xs
      else (case split_on c xs of
              [] \<Rightarrow> [[x]]
            | y # ys \<Rightarrow> (x # y) # ys))"

primrec join_with :: "string \<Rightarrow> string list \<Rightarrow> string" where
  "join_with sep [] = []"
| "join_with sep (x # xs) = (if xs = [] then x else x @ sep @ join_with sep xs)"

definition initial_slashes :: "string \<Rightarrow> nat" where
  "initial_slashes p =
     (if take 1 p = ''/'' then (if take 2 p = ''//'' \<and> take 3 p \<noteq> ''///'' then 2 else 1)
      else 0)"

definition normpath_step :: "nat \<Rightarrow> string list \<Rightarrow> string \<Rightarrow> string list" where
  "normpath_step slashes new_comps part =
     (if part = [] then new_comps
      else if part = ''.'' then new_comps
      else if part = ''..'' then
        (if new_comps = [] then (if slashes = 0 then [part] else [])
         else if last new_comps = ''..'' then new_comps @ [part]
         else butlast new_comps)
      else new_comps @ [part])"

definition normpath :: "string \<Rightarrow> string" where
  "normpath p =
     (if p = [] then ''.''
      else
        (let slashes = initial_slashes p;
             comps = foldl (normpath_step slashes) [] (split_on CHR ''/'' p);
             q = replicate slashes CHR ''/'' @ join_with ''/'' comps
         in if q = [] then ''.'' else q))"

definition path_join :: "string \<Rightarrow> string \<Rightarrow> string" where
  "path_join a b =
     (if take 1 b = ''/'' then b
      else if a = [] then b
      else if last a = CHR ''/'' then a @ b
      else a @ ''/'' @ b)"

fun os_path_abspath :: "string \<Rightarrow> py_arg \<Rightarrow> py_error + string" where
  "os_path_abspath cwd (PyStr p) =
     Inr (normpath (if take 1 p = ''/'' then p else path_join cwd p))"
| "os_path_abspath cwd (PyParseResult r) = Inl TypeError"

section \<open>\<open>pyiceberg/io/interface.py\<close>: \<open>parse_location\<close>\<close>

text \<open>
  The function rebinds its argument: after \<open>uri = urlparse(uri)\<close> the name \<open>uri\<close>
  is the parse result, and that is what the first branch hands to
  \<open>os.path.abspath\<close>. The elements of the returned tuple are evaluated left to
  right, so an exception of the third element is the outcome of the branch.
  \<open>urlparse_fn\<close> is the \<open>urlparse\<close> in use and \<open>cwd\<close> the current working
  directory.
\<close>

definition parse_location ::
  "(string \<Rightarrow> py_error + ParseResult) \<Rightarrow> string \<Rightarrow> string \<Rightarrow> py_error + (string \<times> string \<times> string)"
where
  "parse_location urlparse_fn cwd location =
     (case urlparse_fn location of
        Inl e \<Rightarrow> Inl e
      | Inr uri \<Rightarrow>
          if scheme uri = [] then
            (case os_path_abspath cwd (PyParseResult uri) of
               Inl e \<Rightarrow> Inl e
             | Inr p \<Rightarrow> Inr (''file'', netloc uri, p))
          else if scheme uri \<in> set [''hdfs'', ''viewfs''] then
            Inr (scheme uri, netloc uri, path uri)
          else
            Inr (scheme uri, netloc uri, netloc uri @ path uri))"

section \<open>\<open>pyiceberg/io/interface.py\<close>: the class \<open>FileIO\<close>\<close>

text \<open>
  What \<open>fs_by_scheme\<close> returns: a reference to a filesystem client, or one of the
  singletons \<open>None\<close> and \<open>NotImplemented\<close>. Clients are compared by identity
  (\<open>is None\<close> in \<open>load_file_io\<close>), so a client is the number of the object.
\<close>

datatype fs_client = PyNone | NotImplemented | Client nat

text \<open>
  \<open>FileIO\<close> is abstract: the concrete backends (\<open>PyArrowFileIO\<close>,
  \<open>FsspecFileIO\<close>) are imported by \<open>load_file_io\<close> from modules outside the
  files at hand, so a class is described by what \<open>FileIO\<close> looks up on
  \<open>self\<close> and does not define itself:
  \<^item> \<open>parse_uri\<close>, the attribute that \<open>fs_by_uri\<close> calls; \<open>FileIO\<close> defines no
    attribute of that name, so it is \<open>None\<close> (the lookup raises
    \<open>AttributeError\<close>) unless the class adds one;
  \<^item> \<open>fs_by_scheme_override\<close>, the method \<open>fs_by_scheme\<close> that the class
    defines in place of the abstract one (\<open>None\<close> when it defines none). It
    receives the properties of the instance and the scheme, and may raise, return a
    client it builds, or return \<open>None\<close>; it acts on a state \<open>'s\<close> of its own.
\<close>

record 's file_io_class =
  parse_uri :: "(string \<Rightarrow> py_error + (string \<times> string \<times> string)) option"
  fs_by_scheme_override ::
    "((string \<rightharpoonup> string) \<Rightarrow> string \<Rightarrow> 's \<Rightarrow> py_error + (fs_client \<times> 's)) option"

text \<open>An instance: its identity, its class, and the attribute \<open>properties\<close> that
  \<open>FileIO.__init__\<close> sets.\<close>

record 's file_io =
  ident :: nat
  cls :: "'s file_io_class"
  properties :: "string \<rightharpoonup> string"

text \<open>
  The state the code acts on: the warnings issued so far (\<open>warnings.warn\<close>), the
  table of \<open>functools.cache\<close> around \<open>FileIO.fs_by_scheme\<close> (keyed by the
  arguments of the call, that is the instance and the scheme), the number of the next
  object, and the state of the backends.
\<close>

record 's world =
  warnings :: "string list"
  memo :: "(nat \<times> string) \<rightharpoonup> fs_client"
  next_id :: nat
  ext :: 's

definition warn :: "string \<Rightarrow> 's world \<Rightarrow> 's world" where
  "warn msg w = w\<lparr>warnings := warnings w @ [msg]\<rparr>"

text \<open>\<open>FileIO.__init__\<close>, on a new object of class \<open>c\<close>.\<close>

definition new_file_io ::
  "'s file_io_class \<Rightarrow> (string \<rightharpoonup> string) \<Rightarrow> 's world \<Rightarrow> 's file_io \<times> 's world"
where
  "new_file_io c props w =
     (\<lparr>ident = next_id w, cls = c, properties = props\<rparr>, w\<lparr>next_id := Suc (next_id w)\<rparr>)"

text \<open>
  \<open>FileIO.fs_by_scheme\<close>, the function that the class body defines: the decorator
  \<open>@cache\<close> wraps the abstract method, whose body returns \<open>NotImplemented\<close>. A
  call whose arguments are in the table returns the stored result; otherwise the body
  runs and its result is stored.
\<close>

definition FileIO_fs_by_scheme ::
  "'s file_io \<Rightarrow> string \<Rightarrow> 's world \<Rightarrow> py_error + (fs_client \<times> 's world)"
where
  "FileIO_fs_by_scheme self sch w =
     (case memo w (ident self, sch) of
        Some client \<Rightarrow> Inr (client, w)
      | None \<Rightarrow>
          Inr (NotImplemented, w\<lparr>memo := (memo w)((ident self, sch) \<mapsto> NotImplemented)\<rparr>))"

text \<open>
  The call \<open>self.fs_by_scheme(scheme)\<close>. The attribute is looked up on the class of
  the instance first: a class that defines \<open>fs_by_scheme\<close> replaces the function
  above, wrapper included, and its method runs at each call; the table of
  \<open>FileIO.fs_by_scheme\<close> is neither read nor written. Only a class that defines no
  \<open>fs_by_scheme\<close> reaches the cached function of \<open>FileIO\<close>.
\<close>

definition fs_by_scheme ::
  "'s file_io \<Rightarrow> string \<Rightarrow> 's world \<Rightarrow> py_error + (fs_client \<times> 's world)"
where
  "fs_by_scheme self sch w =
     (case fs_by_scheme_override (cls self) of
        None \<Rightarrow> FileIO_fs_by_scheme self sch w
      | Some method \<Rightarrow>
          (case method (properties self) sch (ext w) of
             Inl e \<Rightarrow> Inl e
           | Inr (client, s') \<Rightarrow> Inr (client, w\<lparr>ext := s'\<rparr>)))"

text \<open>\<open>fs_by_uri\<close>: \<open>scheme = self.parse_uri(uri)[0]\<close>, then
  \<open>self.fs_by_scheme(scheme)\<close>.\<close>

definition fs_by_uri ::
  "'s file_io \<Rightarrow> string \<Rightarrow> 's world \<Rightarrow> py_error + (fs_client \<times> 's world)"
where
  "fs_by_uri self uri w =
     (case parse_uri (cls self) of
        None \<Rightarrow> Inl AttributeError
      | Some parse \<Rightarrow>
          (case parse uri of
             Inl e \<Rightarrow> Inl e
           | Inr (sch, authority, p) \<Rightarrow> fs_by_scheme self sch w))"

text \<open>
  The class \<open>FileIO\<close> as the file defines it: no \<open>parse_uri\<close>, and the
  \<open>fs_by_scheme\<close> above. That method is abstract, so a class that can be
  instantiated defines its own; \<open>implementing\<close> is the subclass that supplies the
  abstract methods and nothing more.
\<close>

definition FileIO :: "'s file_io_class" where
  "FileIO = \<lparr>parse_uri = None, fs_by_scheme_override = None\<rparr>"

definition implementing ::
  "((string \<rightharpoonup> string) \<Rightarrow> string \<Rightarrow> 's \<Rightarrow> py_error + (fs_client \<times> 's)) \<Rightarrow> 's file_io_class"
where
  "implementing method = FileIO\<lparr>fs_by_scheme_override := Some method\<rparr>"

section \<open>\<open>pyiceberg/io/__init__.py\<close>: backend selection\<close>

definition FSSPEC :: string where "FSSPEC = ''fsspec''"
definition PYARROW :: string where "PYARROW = ''pyarrow''"
definition ARROW_FILE_IO :: string where "ARROW_FILE_IO = ''pyiceberg.io.pyarrow.PyArrowFileIO''"
definition FSSPEC_FILE_IO :: string where "FSSPEC_FILE_IO = ''pyiceberg.io.fsspec.FsspecFileIO''"
definition PY_IO_IMPL :: string where "PY_IO_IMPL = ''py-io-impl''"
definition DEFAULT_PY_IO_IMPL :: string where "DEFAULT_PY_IO_IMPL = PYARROW"

definition fsspec_deprecation :: string where
  "fsspec_deprecation =
     ''The 'py-io-impl' value 'pyiceberg.io.fsspec.FsspecFileIO' is being deprecated. '' @
     ''Please use 'fsspec' instead.''"

definition pyarrow_deprecation :: string where
  "pyarrow_deprecation =
     ''The 'py-io-impl' value 'pyiceberg.io.pyarrow.PyArrowFileIO' is being deprecated. '' @
     ''Please use 'pyarrow' instead.''"

text \<open>
  \<open>_py_io_impl_argument_parser\<close>. Its last branch builds a \<open>ValueError\<close> and drops
  it: there is no \<open>raise\<close>, so the function reaches its end and returns \<open>None\<close>.
  The result is therefore an optional string.
\<close>

definition py_io_impl_argument_parser :: "string \<Rightarrow> 's world \<Rightarrow> string option \<times> 's world" where
  "py_io_impl_argument_parser py_io_impl w =
     (if py_io_impl \<in> set [FSSPEC, PYARROW] then (Some py_io_impl, w)
      else if py_io_impl = FSSPEC_FILE_IO then (Some FSSPEC, warn fsspec_deprecation w)
      else if py_io_impl = ARROW_FILE_IO then (Some PYARROW, warn pyarrow_deprecation w)
      else (None, w))"

text \<open>The warnings the parser issues for a configured value.\<close>

definition deprecations :: "string \<Rightarrow> string list" where
  "deprecations v =
     (if v = FSSPEC_FILE_IO then [fsspec_deprecation]
      else if v = ARROW_FILE_IO then [pyarrow_deprecation]
      else [])"

text \<open>The location as an f-string prints it: \<open>None\<close> prints as its name.\<close>

definition format_location :: "string option \<Rightarrow> string" where
  "format_location location = (case location of None \<Rightarrow> ''None'' | Some loc \<Rightarrow> loc)"

definition pyarrow_unsupported :: "string option \<Rightarrow> string" where
  "pyarrow_unsupported location =
     ''Uri scheme '' @ format_location location @ '' is not supported by PyArrowFileIO. '' @
     ''Attempts to load by FsspecFileIO instead.''"

definition fsspec_unsupported :: "string option \<Rightarrow> string" where
  "fsspec_unsupported location =
     ''Uri scheme '' @ format_location location @ '' is not supported by FsspecFileIO. '' @
     ''Attempts to load by PyArrowFileIO instead.''"

text \<open>
  The test \<open>location and file_io.fs_by_uri(location) is None\<close>: a location that is
  \<open>None\<close> or the empty string is false, and \<open>fs_by_uri\<close> is not called.
\<close>

definition location_unsupported ::
  "'s file_io \<Rightarrow> string option \<Rightarrow> 's world \<Rightarrow> py_error + (bool \<times> 's world)"
where
  "location_unsupported file_io location w =
     (case location of
        None \<Rightarrow> Inr (False, w)
      | Some loc \<Rightarrow>
          if loc = [] then Inr (False, w)
          else
            (case fs_by_uri file_io loc w of
               Inl e \<Rightarrow> Inl e
             | Inr (client, w') \<Rightarrow> Inr (client = PyNone, w')))"

text \<open>\<open>properties.get(PY_IO_IMPL, DEFAULT_PY_IO_IMPL)\<close>.\<close>

definition configured_impl :: "(string \<rightharpoonup> string) \<Rightarrow> string" where
  "configured_impl props = (case props PY_IO_IMPL of Some v \<Rightarrow> v | None \<Rightarrow> DEFAULT_PY_IO_IMPL)"

text \<open>
  \<open>load_file_io\<close>. The two backend classes it imports are the parameters
  \<open>PyArrowFileIO\<close> and \<open>FsspecFileIO\<close>. The comparison \<open>py_io_impl == PYARROW\<close>
  is false when the parser returned \<open>None\<close>.
\<close>

definition load_file_io ::
  "'s file_io_class \<Rightarrow> 's file_io_class \<Rightarrow> (string \<rightharpoonup> string) \<Rightarrow> string option \<Rightarrow> 's world
     \<Rightarrow> py_error + ('s file_io \<times> 's world)"
where
  "load_file_io PyArrowFileIO FsspecFileIO props location w0 =
     (let (py_io_impl, w1) = py_io_impl_argument_parser (configured_impl props) w0
      in if py_io_impl = Some PYARROW then
           (let (file_io, w2) = new_file_io PyArrowFileIO props w1 in
            case location_unsupported file_io location w2 of
              Inl e \<Rightarrow> Inl e
            | Inr (unsupported, w3) \<Rightarrow>
                if unsupported
                then Inr (new_file_io FsspecFileIO props (warn (pyarrow_unsupported location) w3))
                else Inr (file_io, w3))
         else
           (let (file_io, w2) = new_file_io FsspecFileIO props w1 in
            case location_unsupported file_io location w2 of
              Inl e \<Rightarrow> Inl e
            | Inr (unsupported, w3) \<Rightarrow>
                if unsupported
                then Inr (new_file_io PyArrowFileIO props (warn (fsspec_unsupported location) w3))
                else Inr (file_io, w3)))"

section \<open>A backend and a state to run the definitions on\<close>

text \<open>
  A backend given by the list of schemes it serves: its \<open>parse_uri\<close> is
  \<open>parse_location\<close> (with the working directory \<open>/\<close>), and its
  \<open>fs_by_scheme\<close> builds a new client for a scheme of the list and returns
  \<open>None\<close> for any other. The state of the backend counts the clients built.
\<close>

definition serving_body ::
  "string list \<Rightarrow> (string \<rightharpoonup> string) \<Rightarrow> string \<Rightarrow> nat \<Rightarrow> py_error + (fs_client \<times> nat)"
where
  "serving_body schemes props sch n =
     (if sch \<in> set schemes then Inr (Client n, Suc n) else Inr (PyNone, n))"

definition serving :: "string list \<Rightarrow> nat file_io_class" where
  "serving schemes =
     (implementing (serving_body schemes))\<lparr>parse_uri := Some (parse_location urlparse ''/'')\<rparr>"

definition world0 :: "nat world" where
  "world0 = \<lparr>warnings = [], memo = Map.empty, next_id = 0, ext = 0\<rparr>"

section \<open>Evaluations shared by the theorems\<close>

lemma urlparse_hdfs:
  "urlparse ''hdfs://namenode:8020/warehouse/db/t'' =
     Inr \<lparr>scheme = ''hdfs'', netloc = ''namenode:8020'', path = ''/warehouse/db/t'',
          params = [], query = [], fragment = []\<rparr>"
  by code_simp

lemma urlparse_s3:
  "urlparse ''s3://bucket/key'' =
     Inr \<lparr>scheme = ''s3'', netloc = ''bucket'', path = ''/key'',
          params = [], query = [], fragment = []\<rparr>"
  by code_simp

lemma urlparse_plain_path:
  "urlparse ''/tmp/warehouse/db/t.parquet'' =
     Inr \<lparr>scheme = [], netloc = [], path = ''/tmp/warehouse/db/t.parquet'',
          params = [], query = [], fragment = []\<rparr>"
  by code_simp

lemma urlparse_open_bracket: "urlparse ''s3://[bucket/key'' = Inl ValueError"
  by code_simp

lemma parse_location_no_scheme:
  assumes "urlparse_fn location = Inr uri" and "scheme uri = []"
  shows "parse_location urlparse_fn cwd location = Inl TypeError"
  using assms by (simp add: parse_location_def)

lemma parse_location_urlparse_raises:
  assumes "urlparse_fn location = Inl e"
  shows "parse_location urlparse_fn cwd location = Inl e"
  using assms by (simp add: parse_location_def)

lemma parse_location_s3:
  "parse_location urlparse cwd ''s3://bucket/key'' = Inr (''s3'', ''bucket'', ''bucket/key'')"
  using urlparse_s3 by (simp add: parse_location_def)

lemma parse_location_hdfs:
  "parse_location urlparse cwd ''hdfs://namenode:8020/warehouse/db/t'' =
     Inr (''hdfs'', ''namenode:8020'', ''/warehouse/db/t'')"
  using urlparse_hdfs by (simp add: parse_location_def)

section \<open>\<open>parse_location\<close>\<close>

text \<open>
  Claim C6. For a location whose scheme, as \<open>urlparse\<close> reports it, is \<open>hdfs\<close> or
  \<open>viewfs\<close>, \<open>parse_location\<close> returns that scheme, the authority, and the path
  component of the parse result unchanged: the authority is not folded into the path.
\<close>

theorem parse_location_distributed_fs:
  assumes "urlparse_fn location = Inr uri"
      and "scheme uri = ''hdfs'' \<or> scheme uri = ''viewfs''"
  shows "parse_location urlparse_fn cwd location = Inr (scheme uri, netloc uri, path uri)"
  using assms by (auto simp: parse_location_def)

theorem parse_location_distributed_fs_witness:
  "parse_location urlparse ''/'' ''hdfs://namenode:8020/warehouse/db/t'' =
     Inr (''hdfs'', ''namenode:8020'', ''/warehouse/db/t'')"
  using parse_location_distributed_fs [where urlparse_fn = urlparse
      and location = "''hdfs://namenode:8020/warehouse/db/t''" and cwd = "''/''",
      OF urlparse_hdfs]
  by simp

text \<open>
  Claim C7. For a location with an explicit scheme other than \<open>hdfs\<close> and
  \<open>viewfs\<close>, the path that \<open>parse_location\<close> returns is the authority followed
  by the path component of the parse result.
\<close>

theorem parse_location_other_scheme:
  assumes "urlparse_fn location = Inr uri"
      and "scheme uri \<noteq> []" and "scheme uri \<noteq> ''hdfs''" and "scheme uri \<noteq> ''viewfs''"
  shows "parse_location urlparse_fn cwd location =
           Inr (scheme uri, netloc uri, netloc uri @ path uri)"
  using assms by (simp add: parse_location_def)

theorem parse_location_other_scheme_witness:
  "parse_location urlparse ''/'' ''s3://bucket/key'' = Inr (''s3'', ''bucket'', ''bucket/key'')"
  using parse_location_other_scheme [where urlparse_fn = urlparse
      and location = "''s3://bucket/key''" and cwd = "''/''", OF urlparse_s3]
  by simp

text \<open>
  Claim C2. A location without a scheme should give the scheme \<open>file\<close>, an empty
  authority and the absolute form of the location. The code does not: in the branch
  for a missing scheme \<open>os.path.abspath\<close> receives the parse result, not the
  location string, and raises \<open>TypeError\<close> (\<open>parse_location_no_scheme\<close>, for
  every such location). On the absolute path below the function raises, where the
  absolute form of the string is the string itself.
\<close>

theorem parse_location_plain_path_raises:
  "parse_location urlparse cwd ''/tmp/warehouse/db/t.parquet'' = Inl TypeError
   \<and> os_path_abspath cwd (PyStr ''/tmp/warehouse/db/t.parquet'') =
       Inr ''/tmp/warehouse/db/t.parquet''"
proof
  show "parse_location urlparse cwd ''/tmp/warehouse/db/t.parquet'' = Inl TypeError"
    using urlparse_plain_path by (simp add: parse_location_no_scheme)
  show "os_path_abspath cwd (PyStr ''/tmp/warehouse/db/t.parquet'') =
          Inr ''/tmp/warehouse/db/t.parquet''"
    by code_simp
qed

text \<open>
  Claim C5, as stated: \<open>parse_location\<close> returns a triple for every string. It does
  not: \<open>urlparse\<close> raises \<open>ValueError\<close> on an authority with an unmatched square
  bracket, and \<open>parse_location\<close> lets the exception through.
\<close>

theorem parse_location_not_total:
  "parse_location urlparse ''/'' ''s3://[bucket/key'' = Inl ValueError"
  using urlparse_open_bracket by (simp add: parse_location_urlparse_raises)

text \<open>
  Claim C5, amended. For every location that \<open>urlparse\<close> accepts and that carries
  an explicit scheme, \<open>parse_location\<close> returns a triple, and the triple is a
  function of the parse result: the scheme and the authority as parsed, and the path
  according to the scheme. (Locations without a scheme are the subject of C2.)
\<close>

theorem parse_location_explicit_scheme:
  assumes "urlparse_fn location = Inr uri" and "scheme uri \<noteq> []"
  shows "parse_location urlparse_fn cwd location =
           Inr (scheme uri, netloc uri,
                if scheme uri \<in> set [''hdfs'', ''viewfs''] then path uri
                else netloc uri @ path uri)"
  using assms by (simp add: parse_location_def)

theorem parse_location_explicit_scheme_witness:
  "parse_location urlparse ''/home/user'' ''hdfs://namenode:8020/warehouse/db/t'' =
     Inr (''hdfs'', ''namenode:8020'', ''/warehouse/db/t'')
   \<and> parse_location urlparse ''/home/user'' ''s3://bucket/key'' =
     Inr (''s3'', ''bucket'', ''bucket/key'')"
  using parse_location_explicit_scheme [where urlparse_fn = urlparse
      and location = "''hdfs://namenode:8020/warehouse/db/t''" and cwd = "''/home/user''",
      OF urlparse_hdfs]
    parse_location_explicit_scheme [where urlparse_fn = urlparse
      and location = "''s3://bucket/key''" and cwd = "''/home/user''", OF urlparse_s3]
  by simp

section \<open>\<open>FileIO.fs_by_scheme\<close> and \<open>FileIO.fs_by_uri\<close>\<close>

lemma fs_by_scheme_keeps:
  assumes "fs_by_scheme self sch w = Inr (client, w')"
  shows "warnings w' = warnings w \<and> next_id w' = next_id w"
  using assms
  by (auto simp: fs_by_scheme_def FileIO_fs_by_scheme_def split: option.splits sum.splits)

lemma fs_by_uri_keeps:
  assumes "fs_by_uri self uri w = Inr (client, w')"
  shows "warnings w' = warnings w \<and> next_id w' = next_id w"
  using assms fs_by_scheme_keeps
  by (fastforce simp: fs_by_uri_def split: option.splits sum.splits prod.splits)

lemma fs_by_uri_parse_uri:
  assumes "parse_uri (cls self) = Some parse"
  shows "fs_by_uri self uri w =
           (case parse uri of Inl e \<Rightarrow> Inl e | Inr t \<Rightarrow> fs_by_scheme self (fst t) w)"
  using assms by (simp add: fs_by_uri_def split: sum.splits prod.splits)

lemma fs_by_uri_no_parse_uri:
  assumes "parse_uri (cls self) = None"
  shows "fs_by_uri self uri w = Inl AttributeError"
  using assms by (simp add: fs_by_uri_def)

lemma FileIO_fs_by_scheme_cached:
  assumes "FileIO_fs_by_scheme self sch w = Inr (client, w')"
  shows "FileIO_fs_by_scheme self sch w' = Inr (client, w')"
  using assms by (auto simp: FileIO_fs_by_scheme_def split: option.splits)

text \<open>
  Claim C9. Two calls of \<open>fs_by_scheme\<close> with the same scheme on the same instance
  should return the same client, the second from the table. They do not: the
  decorator \<open>@cache\<close> is on the abstract method of \<open>FileIO\<close>
  (\<open>FileIO_fs_by_scheme_cached\<close> is the property it has), and the method that a
  class supplies in its place is not under it. On an instance of a class that
  supplies the abstract methods only, and builds a client for \<open>s3\<close>, the first
  call returns client 0 and the second builds and returns client 1; the table stays
  empty.
\<close>

theorem fs_by_scheme_override_not_cached:
  "fs_by_scheme \<lparr>ident = 0, cls = implementing (serving_body [''s3'']), properties = Map.empty\<rparr>
     ''s3'' world0 = Inr (Client 0, world0\<lparr>ext := 1\<rparr>)
   \<and> fs_by_scheme \<lparr>ident = 0, cls = implementing (serving_body [''s3'']), properties = Map.empty\<rparr>
       ''s3'' (world0\<lparr>ext := 1\<rparr>) = Inr (Client 1, world0\<lparr>ext := 2\<rparr>)
   \<and> memo (world0\<lparr>ext := 2\<rparr>) (0, ''s3'') = None"
  by (simp add: fs_by_scheme_def implementing_def FileIO_def serving_body_def world0_def)

text \<open>
  Claim C3. \<open>fs_by_uri\<close> should return what \<open>fs_by_scheme\<close> returns on the scheme
  that \<open>parse_location\<close> finds. The method calls \<open>self.parse_uri\<close>, which
  \<open>FileIO\<close> does not define: on an instance of a class that supplies the abstract
  methods only, \<open>fs_by_uri\<close> raises \<open>AttributeError\<close>, whereas
  \<open>parse_location\<close> finds the scheme \<open>s3\<close> and \<open>fs_by_scheme\<close> returns a
  client for it.
\<close>

theorem fs_by_uri_attribute_error:
  "fs_by_uri \<lparr>ident = 0, cls = implementing (serving_body [''s3'']), properties = Map.empty\<rparr>
     ''s3://bucket/key'' world0 = Inl AttributeError
   \<and> parse_location urlparse ''/'' ''s3://bucket/key'' = Inr (''s3'', ''bucket'', ''bucket/key'')
   \<and> fs_by_scheme \<lparr>ident = 0, cls = implementing (serving_body [''s3'']), properties = Map.empty\<rparr>
       ''s3'' world0 =
       Inr (Client 0, world0\<lparr>ext := 1\<rparr>)"
  by (simp add: fs_by_uri_def implementing_def FileIO_def parse_location_s3 fs_by_scheme_def
      serving_body_def world0_def)

section \<open>Backend selection\<close>

lemma parser_warnings:
  "warnings (snd (py_io_impl_argument_parser v w)) = warnings w @ deprecations v"
  by (simp add: py_io_impl_argument_parser_def deprecations_def warn_def
      FSSPEC_def PYARROW_def FSSPEC_FILE_IO_def ARROW_FILE_IO_def)

lemma parser_unknown:
  assumes "v \<notin> set [FSSPEC, PYARROW, FSSPEC_FILE_IO, ARROW_FILE_IO]"
  shows "py_io_impl_argument_parser v w = (None, w)"
  using assms by (simp add: py_io_impl_argument_parser_def)

lemma load_file_io_unknown:
  assumes "configured_impl props \<notin> set [FSSPEC, PYARROW, FSSPEC_FILE_IO, ARROW_FILE_IO]"
  shows "load_file_io PyArrowFileIO FsspecFileIO props None w =
           Inr (new_file_io FsspecFileIO props w)"
  using parser_unknown [OF assms, of w]
  by (simp add: load_file_io_def location_unsupported_def split: prod.splits)

lemma probe_pyarrow_s3:
  "fs_by_uri \<lparr>ident = 0, cls = serving [''file''], properties = [PY_IO_IMPL \<mapsto> ARROW_FILE_IO]\<rparr>
     ''s3://bucket/key''
     \<lparr>warnings = [pyarrow_deprecation], memo = Map.empty, next_id = 1, ext = 0\<rparr> =
   Inr (PyNone, \<lparr>warnings = [pyarrow_deprecation], memo = Map.empty,
                 next_id = 1, ext = 0\<rparr>)"
  by (simp add: fs_by_uri_def serving_def implementing_def FileIO_def parse_location_s3
      fs_by_scheme_def serving_body_def)

text \<open>
  Claim C1. A value of \<open>py-io-impl\<close> that is none of the four recognised spellings
  should end the selection with a \<open>ValueError\<close>. The code does not raise: the
  parser returns \<open>None\<close>, the comparison with \<open>pyarrow\<close> fails, and
  \<open>load_file_io\<close> returns an instance of \<open>FsspecFileIO\<close> without any warning
  (\<open>load_file_io_unknown\<close>, for every unrecognised value). Here the value is
  \<open>s3fs\<close>.
\<close>

theorem load_file_io_unknown_impl:
  "py_io_impl_argument_parser ''s3fs'' w = (None, w)
   \<and> load_file_io PyArrowFileIO FsspecFileIO (props(PY_IO_IMPL \<mapsto> ''s3fs'')) None w =
       Inr (\<lparr>ident = next_id w, cls = FsspecFileIO, properties = props(PY_IO_IMPL \<mapsto> ''s3fs'')\<rparr>,
            w\<lparr>next_id := Suc (next_id w)\<rparr>)"
  by (simp add: load_file_io_def py_io_impl_argument_parser_def configured_impl_def
      FSSPEC_def PYARROW_def FSSPEC_FILE_IO_def ARROW_FILE_IO_def new_file_io_def
      location_unsupported_def)

text \<open>
  Claim C8. On each deprecated spelling the parser returns the canonical name it stands
  for and issues one warning, the deprecation of that spelling; and with such a
  spelling in the properties (and no location), \<open>load_file_io\<close> returns an instance
  of the matching backend, raises nothing, and that warning is the only one added.
\<close>

theorem deprecated_spellings:
  "py_io_impl_argument_parser FSSPEC_FILE_IO w =
     (Some FSSPEC, w\<lparr>warnings := warnings w @ [fsspec_deprecation]\<rparr>)
   \<and> py_io_impl_argument_parser ARROW_FILE_IO w =
     (Some PYARROW, w\<lparr>warnings := warnings w @ [pyarrow_deprecation]\<rparr>)
   \<and> load_file_io PyArrowFileIO FsspecFileIO (props(PY_IO_IMPL \<mapsto> FSSPEC_FILE_IO)) None w =
       Inr (\<lparr>ident = next_id w, cls = FsspecFileIO,
             properties = props(PY_IO_IMPL \<mapsto> FSSPEC_FILE_IO)\<rparr>,
            w\<lparr>warnings := warnings w @ [fsspec_deprecation], next_id := Suc (next_id w)\<rparr>)
   \<and> load_file_io PyArrowFileIO FsspecFileIO (props(PY_IO_IMPL \<mapsto> ARROW_FILE_IO)) None w =
       Inr (\<lparr>ident = next_id w, cls = PyArrowFileIO,
             properties = props(PY_IO_IMPL \<mapsto> ARROW_FILE_IO)\<rparr>,
            w\<lparr>warnings := warnings w @ [pyarrow_deprecation], next_id := Suc (next_id w)\<rparr>)"
  by (simp add: load_file_io_def py_io_impl_argument_parser_def configured_impl_def
      FSSPEC_def PYARROW_def FSSPEC_FILE_IO_def ARROW_FILE_IO_def new_file_io_def
      location_unsupported_def warn_def)

text \<open>
  Claim C10. With the empty string as location \<open>load_file_io\<close> does what it does
  with no location: \<open>fs_by_uri\<close> is not called, there is no fallback, and the result
  is a new instance of the backend that the parser's answer selects, in the state the
  parser left (so neither the table of \<open>fs_by_scheme\<close> nor the state of the
  backends is touched).
\<close>

theorem load_file_io_empty_location:
  "load_file_io PyArrowFileIO FsspecFileIO props (Some []) w =
     load_file_io PyArrowFileIO FsspecFileIO props None w
   \<and> load_file_io PyArrowFileIO FsspecFileIO props None w =
     Inr (new_file_io
            (if fst (py_io_impl_argument_parser (configured_impl props) w) = Some PYARROW
             then PyArrowFileIO else FsspecFileIO)
            props (snd (py_io_impl_argument_parser (configured_impl props) w)))"
  by (simp add: load_file_io_def location_unsupported_def split: prod.splits)

text \<open>
  Claim C4, as stated: whenever the backend selected first returns \<open>None\<close> for the
  location, exactly one warning is issued. With a deprecated spelling in the
  properties there are two: the deprecation and the fallback. Here \<open>PyArrowFileIO\<close>
  serves \<open>file\<close> only, the location is on \<open>s3\<close>, and the properties name
  \<open>pyiceberg.io.pyarrow.PyArrowFileIO\<close>.
\<close>

theorem load_file_io_two_warnings:
  "fs_by_uri \<lparr>ident = 0, cls = serving [''file''], properties = [PY_IO_IMPL \<mapsto> ARROW_FILE_IO]\<rparr>
     ''s3://bucket/key''
     \<lparr>warnings = [pyarrow_deprecation], memo = Map.empty, next_id = 1, ext = 0\<rparr> =
   Inr (PyNone, \<lparr>warnings = [pyarrow_deprecation], memo = Map.empty,
                 next_id = 1, ext = 0\<rparr>)
   \<and> load_file_io (serving [''file'']) (serving [''s3'']) [PY_IO_IMPL \<mapsto> ARROW_FILE_IO]
     (Some ''s3://bucket/key'') world0 =
   Inr (\<lparr>ident = 1, cls = serving [''s3''], properties = [PY_IO_IMPL \<mapsto> ARROW_FILE_IO]\<rparr>,
        \<lparr>warnings = [pyarrow_deprecation, pyarrow_unsupported (Some ''s3://bucket/key'')],
         memo = Map.empty, next_id = 2, ext = 0\<rparr>)"
  using probe_pyarrow_s3
  by (simp add: load_file_io_def configured_impl_def py_io_impl_argument_parser_def
      FSSPEC_def PYARROW_def FSSPEC_FILE_IO_def ARROW_FILE_IO_def PY_IO_IMPL_def
      new_file_io_def location_unsupported_def warn_def world0_def)

text \<open>
  Claim C4, amended. Let the properties hold a recognised value of \<open>py-io-impl\<close>
  (or none), let the location be non-empty, and let \<open>fs_by_uri\<close> of the backend
  built first return \<open>None\<close>. Then \<open>load_file_io\<close> returns a new instance of the
  other backend with the same properties and raises nothing; that instance is not
  probed, whatever it would answer; and the warnings issued are the deprecation
  warning of the configured spelling, if it is a deprecated one, followed by exactly
  one fallback warning.
\<close>

theorem load_file_io_fallback:
  assumes known: "configured_impl props \<in> set [FSSPEC, PYARROW, FSSPEC_FILE_IO, ARROW_FILE_IO]"
      and nonempty: "loc \<noteq> []"
      and parsed: "py_io_impl_argument_parser (configured_impl props) w0 = (impl, w1)"
      and built: "new_file_io (if impl = Some PYARROW then PyArrowFileIO else FsspecFileIO) props w1
                    = (first, w2)"
      and probe: "fs_by_uri first loc w2 = Inr (PyNone, w3)"
  shows "load_file_io PyArrowFileIO FsspecFileIO props (Some loc) w0 =
           Inr (\<lparr>ident = next_id w3,
                 cls = (if impl = Some PYARROW then FsspecFileIO else PyArrowFileIO),
                 properties = props\<rparr>,
                w3\<lparr>warnings := warnings w0 @ deprecations (configured_impl props) @
                       [if impl = Some PYARROW then pyarrow_unsupported (Some loc)
                        else fsspec_unsupported (Some loc)],
                   next_id := Suc (next_id w3)\<rparr>)"
proof -
  have w1: "warnings w1 = warnings w0 @ deprecations (configured_impl props)"
    using parser_warnings [of "configured_impl props" w0] parsed by simp
  have w2: "warnings w2 = warnings w1"
    using built by (auto simp: new_file_io_def)
  have w3: "warnings w3 = warnings w2"
    using fs_by_uri_keeps [OF probe] by simp
  have unsupported: "location_unsupported first (Some loc) w2 = Inr (True, w3)"
    using nonempty probe by (simp add: location_unsupported_def)
  show ?thesis
  proof (cases "impl = Some PYARROW")
    case True
    with parsed built unsupported w1 w2 w3 show ?thesis
      by (simp add: load_file_io_def new_file_io_def warn_def)
  next
    case False
    with parsed built unsupported w1 w2 w3 show ?thesis
      by (simp add: load_file_io_def new_file_io_def warn_def)
  qed
qed

theorem load_file_io_fallback_witness:
  "load_file_io (serving [''file'']) (serving [''s3'']) [PY_IO_IMPL \<mapsto> FSSPEC]
     (Some ''hdfs://namenode:8020/warehouse/db/t'') world0 =
   Inr (\<lparr>ident = 1, cls = serving [''file''], properties = [PY_IO_IMPL \<mapsto> FSSPEC]\<rparr>,
        \<lparr>warnings = [fsspec_unsupported (Some ''hdfs://namenode:8020/warehouse/db/t'')],
         memo = Map.empty, next_id = 2, ext = 0\<rparr>)"
proof -
  let ?props = "[PY_IO_IMPL \<mapsto> FSSPEC]"
  let ?first = "\<lparr>ident = 0, cls = serving [''s3''], properties = ?props\<rparr>"
  let ?w2 = "\<lparr>warnings = [], memo = Map.empty, next_id = 1, ext = 0::nat\<rparr>"
  let ?w3 = "\<lparr>warnings = [], memo = Map.empty, next_id = 1,
              ext = 0::nat\<rparr>"
  have known: "configured_impl ?props \<in> set [FSSPEC, PYARROW, FSSPEC_FILE_IO, ARROW_FILE_IO]"
    by (simp add: configured_impl_def)
  have nonempty: "''hdfs://namenode:8020/warehouse/db/t'' \<noteq> []"
    by simp
  have parsed: "py_io_impl_argument_parser (configured_impl ?props) world0 = (Some FSSPEC, world0)"
    by (simp add: configured_impl_def py_io_impl_argument_parser_def)
  have built:
    "new_file_io (if Some FSSPEC = Some PYARROW then serving [''file''] else serving [''s3''])
       ?props world0 = (?first, ?w2)"
    by (simp add: new_file_io_def world0_def FSSPEC_def PYARROW_def)
  have probe: "fs_by_uri ?first ''hdfs://namenode:8020/warehouse/db/t'' ?w2 = Inr (PyNone, ?w3)"
    by (simp add: fs_by_uri_def serving_def implementing_def FileIO_def parse_location_hdfs
        fs_by_scheme_def serving_body_def)
  show ?thesis
    using load_file_io_fallback [OF known nonempty parsed built probe]
    by (simp add: world0_def deprecations_def configured_impl_def FSSPEC_def PYARROW_def
        FSSPEC_FILE_IO_def ARROW_FILE_IO_def)
qed

end
